theory Spec2Isabelle
  imports Main
begin

section \<open>The role hierarchy (app/lib/rbac-core.ts)\<close>

text \<open>
  The type \<open>Role\<close> is imported from app/lib/definitions. The rank table is declared as
  \<^verbatim>\<open>Record<Role, number>\<close> with exactly the keys viewer, editor and admin, so the
  type is the closed union of these three names.
\<close>

datatype Role = viewer | editor | admin

text \<open>
  \<^verbatim>\<open>const roleRank: Record<Role, number> = { viewer: 1, editor: 2, admin: 3 }\<close>
  is an object read by key: a finite map from roles to numbers. A key that is not in an
  object reads as \<^verbatim>\<open>undefined\<close>, here \<open>None\<close>.
\<close>

definition roleRank :: "Role \<rightharpoonup> int" where
  "roleRank = [viewer \<mapsto> 1, editor \<mapsto> 2, admin \<mapsto> 3]"

text \<open>
  JavaScript's \<^verbatim>\<open>a >= b\<close> on what a table read gives: the comparison of two numbers,
  and false as soon as one side is \<^verbatim>\<open>undefined\<close> (it converts to NaN).
\<close>

fun js_ge :: "int option \<Rightarrow> int option \<Rightarrow> bool" where
  "js_ge (Some a) (Some b) = (a \<ge> b)"
| "js_ge _ _ = False"

definition isRoleAtLeast :: "Role \<Rightarrow> Role \<Rightarrow> bool" where
  "isRoleAtLeast role required = js_ge (roleRank role) (roleRank required)"

definition canCreateInvoice :: "Role \<Rightarrow> bool" where
  "canCreateInvoice role = isRoleAtLeast role editor"

definition canUpdateInvoice :: "Role \<Rightarrow> bool" where
  "canUpdateInvoice role = isRoleAtLeast role editor"

definition canDeleteInvoice :: "Role \<Rightarrow> bool" where
  "canDeleteInvoice role = isRoleAtLeast role admin"

subsection \<open>The rank of the specification\<close>

text \<open>
  The specification's own words, to compare the code with: rank is the fixed total
  assignment viewer = 1, editor = 2, admin = 3.
\<close>

fun spec_rank :: "Role \<Rightarrow> int" where
  "spec_rank viewer = 1"
| "spec_rank editor = 2"
| "spec_rank admin = 3"

section \<open>The parallel copy of the predicates\<close>

text \<open>
  A second module declares its own rank table and the same four predicates again, before
  its own \<^verbatim>\<open>getCurrentUserRole\<close> and \<^verbatim>\<open>requireRole\<close>. The names carry the
  suffix \<open>_copy\<close> here.
\<close>

definition roleRank_copy :: "Role \<rightharpoonup> int" where
  "roleRank_copy = [viewer \<mapsto> 1, editor \<mapsto> 2, admin \<mapsto> 3]"

definition isRoleAtLeast_copy :: "Role \<Rightarrow> Role \<Rightarrow> bool" where
  "isRoleAtLeast_copy role required = js_ge (roleRank_copy role) (roleRank_copy required)"

definition canCreateInvoice_copy :: "Role \<Rightarrow> bool" where
  "canCreateInvoice_copy role = isRoleAtLeast_copy role editor"

definition canUpdateInvoice_copy :: "Role \<Rightarrow> bool" where
  "canUpdateInvoice_copy role = isRoleAtLeast_copy role editor"

definition canDeleteInvoice_copy :: "Role \<Rightarrow> bool" where
  "canDeleteInvoice_copy role = isRoleAtLeast_copy role admin"

section \<open>Sessions, effects and thrown values\<close>

text \<open>
  types/next-auth.d.ts: a session's user is the library's default user (optional name,
  email and image) extended by an optional role; the user itself is optional in the
  library's default session. An absent field is \<open>None\<close>.
\<close>

record User =
  name :: "string option"
  email :: "string option"
  image :: "string option"
  role :: "Role option"

record Session =
  user :: "User option"

text \<open>\<^verbatim>\<open>new Response('Forbidden', { status: 403 })\<close>\<close>

record Response =
  body :: string
  status :: nat

text \<open>
  What a call can throw: whatever the session provider's \<^verbatim>\<open>auth()\<close> threw (of a
  type \<open>'e\<close> this model does not look into), a \<open>Response\<close> object, a failure of the
  database client, or the framework's \<^verbatim>\<open>NEXT_REDIRECT\<close> error: \<^verbatim>\<open>redirect(path)\<close>
  of next/navigation never returns, it throws that error, which carries the path.
\<close>

datatype 'e thrown =
  AuthThrown 'e
| ResponseThrown Response
| PrismaThrown
| RedirectThrown string

text \<open>
  The writes the invoice actions send to the database client. The schemas that validate
  a form (app/lib/schemas/invoice) are outside the sources read here, so the validated
  fields are a value of a type \<open>'d\<close> taken as it comes; the row an action derives from
  them (the amount in cents, today's date) is stood for by the fields themselves.
  An update and a delete name the invoice by its id (the parameter \<^verbatim>\<open>id\<close> of the
  source, \<open>invoice_id\<close> here).
\<close>

datatype 'd DbWrite =
  InvoicesCreate 'd
| InvoicesUpdate string 'd
| InvoicesDelete string

text \<open>The effects of a call, in the order they happen.\<close>

datatype 'd event =
  SessionRead
| Prisma "'d DbWrite"
| ConsoleError
| RevalidatePath string
| Redirect string

fun isWrite :: "'d event \<Rightarrow> bool" where
  "isWrite (Prisma _) = True"
| "isWrite _ = False"

text \<open>
  The surroundings of one request: what \<^verbatim>\<open>auth()\<close> gives when it is awaited (it
  throws, or it returns a session or null), and which writes the database client
  rejects.
\<close>

record ('e, 'd) world =
  authResult :: "'e + Session option"
  prismaFails :: "'d DbWrite \<Rightarrow> bool"

section \<open>Role resolution and enforcement (app/lib/rbac.ts)\<close>

text \<open>A call returns its trace of effects and either a thrown value or its result.\<close>

definition auth :: "('e, 'd) world \<Rightarrow> 'd event list \<times> ('e thrown + Session option)" where
  "auth w = ([SessionRead],
     (case authResult w of Inl e \<Rightarrow> Inl (AuthThrown e) | Inr session \<Rightarrow> Inr session))"

text \<open>
  \<^verbatim>\<open>session?.user?.role ?? 'viewer'\<close>: each \<^verbatim>\<open>?.\<close> stops at an absent value and
  \<^verbatim>\<open>??\<close> replaces an absent result by the default.
\<close>

definition getCurrentUserRole :: "('e, 'd) world \<Rightarrow> 'd event list \<times> ('e thrown + Role)" where
  "getCurrentUserRole w =
     (case auth w of
        (t, Inl x) \<Rightarrow> (t, Inl x)
      | (t, Inr session) \<Rightarrow>
          (t, Inr (case Option.bind (Option.bind session user) role of
                     None \<Rightarrow> viewer
                   | Some r \<Rightarrow> r)))"

definition requireRole :: "('e, 'd) world \<Rightarrow> Role \<Rightarrow> 'd event list \<times> ('e thrown + Role)" where
  "requireRole w required =
     (case getCurrentUserRole w of
        (t, Inl x) \<Rightarrow> (t, Inl x)
      | (t, Inr r) \<Rightarrow>
          if \<not> isRoleAtLeast r required
          then (t, Inl (ResponseThrown \<lparr>body = ''Forbidden'', status = 403\<rparr>))
          else (t, Inr r))"

section \<open>The invoice actions (app/lib/actions.ts)\<close>

text \<open>
  The form state an action returns: \<^verbatim>\<open>{ errors?, message? }\<close>. The field errors
  come from the validation library and are a value of a type \<open>'fe\<close>.
\<close>

record 'fe State =
  errors :: "'fe option"
  message :: "string option"

text \<open>
  An action takes the surroundings of the request, its own arguments, and in place of
  the form data what \<^verbatim>\<open>safeParse\<close> makes of them: the field errors (\<open>Inl\<close>) or the
  validated fields (\<open>Inr\<close>). It returns its trace and either a thrown value or what it
  returns. \<^verbatim>\<open>revalidatePath\<close>, \<^verbatim>\<open>redirect\<close> and \<^verbatim>\<open>console.error\<close> belong to
  the framework and are recorded as events, in the order the source calls them.
  \<^verbatim>\<open>createInvoice\<close> and \<^verbatim>\<open>updateInvoice\<close> call \<^verbatim>\<open>redirect\<close> last and outside
  their \<^verbatim>\<open>try\<close>: after a write that went through they do not return, the redirect
  error leaves them; their two \<^verbatim>\<open>return\<close> statements each return a form state.
  No action calls \<^verbatim>\<open>auth\<close>, \<^verbatim>\<open>getCurrentUserRole\<close> or \<^verbatim>\<open>requireRole\<close>.
\<close>

definition createInvoice ::
  "('e, 'd) world \<Rightarrow> 'fe State \<Rightarrow> 'fe + 'd \<Rightarrow> 'd event list \<times> ('e thrown + 'fe State)" where
  "createInvoice w prevState validatedFields =
     (case validatedFields of
        Inl fieldErrors \<Rightarrow>
          ([], Inr \<lparr>errors = Some fieldErrors,
                      message = Some ''Missing Fields. Failed to create invoice''\<rparr>)
      | Inr d \<Rightarrow>
          if prismaFails w (InvoicesCreate d)
          then ([Prisma (InvoicesCreate d), ConsoleError],
                Inr \<lparr>errors = None,
                      message = Some ''Database Error: Failed to create invoice.''\<rparr>)
          else ([Prisma (InvoicesCreate d),
                 RevalidatePath ''/dashboard/invoices'', Redirect ''/dashboard/invoices''],
                Inl (RedirectThrown ''/dashboard/invoices'')))"

definition updateInvoice ::
  "('e, 'd) world \<Rightarrow> string \<Rightarrow> 'fe State \<Rightarrow> 'fe + 'd \<Rightarrow>
     'd event list \<times> ('e thrown + 'fe State)" where
  "updateInvoice w invoice_id prevState validatedFields =
     (case validatedFields of
        Inl fieldErrors \<Rightarrow>
          ([], Inr \<lparr>errors = Some fieldErrors,
                      message = Some ''Missing Fields. Failed to create invoice''\<rparr>)
      | Inr d \<Rightarrow>
          if prismaFails w (InvoicesUpdate invoice_id d)
          then ([Prisma (InvoicesUpdate invoice_id d)],
                Inr \<lparr>errors = None,
                      message = Some ''Database Error: Failed to create invoice.''\<rparr>)
          else ([Prisma (InvoicesUpdate invoice_id d),
                 RevalidatePath ''/dashboard/invoices'', Redirect ''/dashboard/invoices''],
                Inl (RedirectThrown ''/dashboard/invoices'')))"

text \<open>
  \<^verbatim>\<open>deleteInvoice\<close> awaits the delete outside any \<^verbatim>\<open>try\<close>: a rejected write is
  thrown on to the caller and the path is not revalidated.
\<close>

definition deleteInvoice :: "('e, 'd) world \<Rightarrow> string \<Rightarrow> 'd event list \<times> ('e thrown + unit)" where
  "deleteInvoice w invoice_id =
     (if prismaFails w (InvoicesDelete invoice_id)
      then ([Prisma (InvoicesDelete invoice_id)], Inl PrismaThrown)
      else ([Prisma (InvoicesDelete invoice_id), RevalidatePath ''/dashboard/invoices''], Inr ()))"

section \<open>Two concrete requests\<close>

text \<open>
  A request whose session carries the role editor, and one whose session carries the
  role viewer; no exception type is needed, the validated fields are a string, and the
  database accepts every write.
\<close>

definition editor_request :: "(unit, string) world" where
  "editor_request =
     \<lparr>authResult = Inr (Some \<lparr>user = Some \<lparr>name = Some ''Ed'', email = None,
                                                image = None, role = Some editor\<rparr>\<rparr>),
      prismaFails = (\<lambda>_. False)\<rparr>"

definition viewer_request :: "(unit, string) world" where
  "viewer_request =
     \<lparr>authResult = Inr (Some \<lparr>user = Some \<lparr>name = Some ''Vi'', email = None,
                                                image = None, role = Some viewer\<rparr>\<rparr>),
      prismaFails = (\<lambda>_. False)\<rparr>"

section \<open>Properties of the role hierarchy\<close>

lemma roleRank_total: "roleRank r = Some (spec_rank r)"
  by (cases r) (simp_all add: roleRank_def)

lemma roleRank_copy_total: "roleRank_copy r = Some (spec_rank r)"
  by (cases r) (simp_all add: roleRank_copy_def)

lemma isRoleAtLeast_rank: "isRoleAtLeast r q = (spec_rank r \<ge> spec_rank q)"
  by (simp add: isRoleAtLeast_def roleRank_total)

lemma isRoleAtLeast_copy_rank: "isRoleAtLeast_copy r q = (spec_rank r \<ge> spec_rank q)"
  by (simp add: isRoleAtLeast_copy_def roleRank_copy_total)

text \<open>
  C3. For every pair of roles, every role has a rank in the code's table, namely
  viewer 1, editor 2 and admin 3, so the comparison never meets an undefined rank, and
  \<open>isRoleAtLeast role required\<close> is true exactly when the rank of \<open>role\<close> is at least
  the rank of \<open>required\<close>.
\<close>

theorem isRoleAtLeast_iff_rank:
  "roleRank r = Some (spec_rank r) \<and> roleRank q = Some (spec_rank q) \<and>
   isRoleAtLeast r q = (spec_rank r \<ge> spec_rank q)"
  by (simp add: roleRank_total isRoleAtLeast_rank)

text \<open>
  C5. For every role, \<open>canCreateInvoice\<close> and \<open>canUpdateInvoice\<close> agree, and both are
  \<open>isRoleAtLeast\<close> of the role and editor.
\<close>

theorem canCreateInvoice_eq_canUpdateInvoice:
  "canCreateInvoice r = canUpdateInvoice r \<and>
   canCreateInvoice r = isRoleAtLeast r editor \<and>
   canUpdateInvoice r = isRoleAtLeast r editor"
  by (simp add: canCreateInvoice_def canUpdateInvoice_def)

text \<open>
  C6. Whoever may delete an invoice may update it; an editor may update but not delete;
  \<open>canDeleteInvoice\<close> is false on viewer and editor and true on admin.
\<close>

theorem canDeleteInvoice_stricter:
  "(canDeleteInvoice r \<longrightarrow> canUpdateInvoice r) \<and>
   canUpdateInvoice editor \<and> \<not> canDeleteInvoice editor \<and>
   \<not> canDeleteInvoice viewer \<and> canDeleteInvoice admin"
  by (cases r) (simp_all add: canDeleteInvoice_def canUpdateInvoice_def isRoleAtLeast_rank)

theorem canDeleteInvoice_stricter_witness:
  "canDeleteInvoice admin \<and> canUpdateInvoice admin"
  using canDeleteInvoice_stricter [of admin] by blast

text \<open>
  C7. The two copies of the predicates are extensionally equal: on every pair of roles
  \<open>isRoleAtLeast\<close> gives the same boolean in both modules, and so do
  \<open>canCreateInvoice\<close>, \<open>canUpdateInvoice\<close> and \<open>canDeleteInvoice\<close> on every role.
\<close>

theorem rbac_copies_agree:
  "isRoleAtLeast r q = isRoleAtLeast_copy r q \<and>
   canCreateInvoice r = canCreateInvoice_copy r \<and>
   canUpdateInvoice r = canUpdateInvoice_copy r \<and>
   canDeleteInvoice r = canDeleteInvoice_copy r"
  by (simp add: canCreateInvoice_def canUpdateInvoice_def canDeleteInvoice_def
      canCreateInvoice_copy_def canUpdateInvoice_copy_def canDeleteInvoice_copy_def
      isRoleAtLeast_rank isRoleAtLeast_copy_rank)

section \<open>Properties of role resolution and enforcement\<close>

lemma getCurrentUserRole_trace: "fst (getCurrentUserRole w) = [SessionRead]"
  by (simp add: getCurrentUserRole_def auth_def split: sum.splits)

lemma requireRole_resolved:
  "snd (getCurrentUserRole w) = Inr r \<Longrightarrow>
   requireRole w required =
     ([SessionRead], if spec_rank r < spec_rank required
                     then Inl (ResponseThrown \<lparr>body = ''Forbidden'', status = 403\<rparr>)
                     else Inr r)"
  using getCurrentUserRole_trace [of w]
  by (cases "getCurrentUserRole w") (auto simp: requireRole_def isRoleAtLeast_rank)

lemma isRoleAtLeast_viewer: "isRoleAtLeast r viewer"
  by (cases r) (simp_all add: isRoleAtLeast_rank)

text \<open>
  C1. When \<open>getCurrentUserRole\<close> resolves the role \<open>r\<close>, \<open>requireRole required\<close> throws
  exactly when the rank of \<open>r\<close> is strictly below the rank of \<open>required\<close>; what it
  throws then is the response Forbidden with status 403; and when it does not throw it
  returns \<open>r\<close>, the resolved role.
\<close>

theorem requireRole_denies_iff_rank_below:
  "snd (getCurrentUserRole w) = Inr r \<Longrightarrow>
     (isl (snd (requireRole w required)) \<longleftrightarrow> spec_rank r < spec_rank required) \<and>
     (spec_rank r < spec_rank required \<longrightarrow>
        snd (requireRole w required)
          = Inl (ResponseThrown \<lparr>body = ''Forbidden'', status = 403\<rparr>)) \<and>
     (\<not> spec_rank r < spec_rank required \<longrightarrow> snd (requireRole w required) = Inr r)"
  by (simp add: requireRole_resolved)

theorem requireRole_denies_iff_rank_below_witness:
  "snd (getCurrentUserRole editor_request) = Inr editor \<and>
   spec_rank editor < spec_rank admin \<and>
   snd (requireRole editor_request admin)
     = Inl (ResponseThrown \<lparr>body = ''Forbidden'', status = 403\<rparr>) \<and>
   \<not> spec_rank editor < spec_rank editor \<and>
   snd (requireRole editor_request editor) = Inr editor"
proof -
  have h: "snd (getCurrentUserRole editor_request) = Inr editor"
    by (simp add: getCurrentUserRole_def auth_def editor_request_def)
  show ?thesis
    using h requireRole_denies_iff_rank_below [OF h, of admin]
      requireRole_denies_iff_rank_below [OF h, of editor]
    by simp
qed

text \<open>
  C4. \<open>getCurrentUserRole\<close> returns viewer, and does not throw, when there is no
  session, when the session has no user, and when the user has no role; when the user
  has a role it returns that role.
\<close>

theorem getCurrentUserRole_default_viewer:
  "snd (getCurrentUserRole (w\<lparr>authResult := Inr None\<rparr>)) = Inr viewer \<and>
   snd (getCurrentUserRole (w\<lparr>authResult := Inr (Some (s\<lparr>user := None\<rparr>))\<rparr>)) = Inr viewer \<and>
   snd (getCurrentUserRole
          (w\<lparr>authResult := Inr (Some (s\<lparr>user := Some (u\<lparr>role := None\<rparr>)\<rparr>))\<rparr>))
     = Inr viewer \<and>
   snd (getCurrentUserRole
          (w\<lparr>authResult := Inr (Some (s\<lparr>user := Some (u\<lparr>role := Some r\<rparr>)\<rparr>))\<rparr>))
     = Inr r"
  by (simp add: getCurrentUserRole_def auth_def)

text \<open>
  C8. Two requests that differ only in that one has no session and the other a session
  without a role (or without a user) are told apart by neither function:
  \<open>getCurrentUserRole\<close> has the same effects and the same result, viewer, in both, and
  \<open>requireRole required\<close> has the same effects and the same outcome in both, for every
  required role.
\<close>

theorem no_session_same_as_no_role:
  "getCurrentUserRole (w\<lparr>authResult := Inr None\<rparr>)
     = getCurrentUserRole
         (w\<lparr>authResult := Inr (Some (s\<lparr>user := Some (u\<lparr>role := None\<rparr>)\<rparr>))\<rparr>) \<and>
   getCurrentUserRole (w\<lparr>authResult := Inr None\<rparr>)
     = getCurrentUserRole (w\<lparr>authResult := Inr (Some (s\<lparr>user := None\<rparr>))\<rparr>) \<and>
   getCurrentUserRole (w\<lparr>authResult := Inr None\<rparr>) = ([SessionRead], Inr viewer) \<and>
   requireRole (w\<lparr>authResult := Inr None\<rparr>) required
     = requireRole
         (w\<lparr>authResult := Inr (Some (s\<lparr>user := Some (u\<lparr>role := None\<rparr>)\<rparr>))\<rparr>) required \<and>
   requireRole (w\<lparr>authResult := Inr None\<rparr>) required
     = requireRole (w\<lparr>authResult := Inr (Some (s\<lparr>user := None\<rparr>))\<rparr>) required"
  by (simp add: requireRole_def getCurrentUserRole_def auth_def)

text \<open>
  C9. When \<open>auth\<close> throws \<open>e\<close>, \<open>getCurrentUserRole\<close> throws \<open>e\<close> on to its caller
  after the one session read: it returns no role, the default included.
\<close>

theorem getCurrentUserRole_propagates_auth_failure:
  "getCurrentUserRole (w\<lparr>authResult := Inl e\<rparr>) = ([SessionRead], Inl (AuthThrown e)) \<and>
   (\<forall>r. snd (getCurrentUserRole (w\<lparr>authResult := Inl e\<rparr>)) \<noteq> Inr r)"
  by (simp add: getCurrentUserRole_def auth_def)

text \<open>
  C10. Every role is at least viewer, so \<open>requireRole viewer\<close> does exactly what
  \<open>getCurrentUserRole\<close> does, returning whatever role that resolves, and never throws a
  response.
\<close>

theorem requireRole_viewer_never_denies:
  "isRoleAtLeast r viewer \<and>
   requireRole w viewer = getCurrentUserRole w \<and>
   (\<forall>resp. snd (requireRole w viewer) \<noteq> Inl (ResponseThrown resp))"
proof -
  have same: "requireRole w viewer = getCurrentUserRole w"
    by (cases "getCurrentUserRole w")
      (auto simp: requireRole_def isRoleAtLeast_viewer split: sum.splits)
  have no_resp: "\<forall>resp. snd (getCurrentUserRole w) \<noteq> Inl (ResponseThrown resp)"
    by (auto simp: getCurrentUserRole_def auth_def split: sum.splits)
  show ?thesis
    using same no_resp by (simp add: isRoleAtLeast_viewer)
qed

section \<open>The invoice actions and the caller's role\<close>

text \<open>
  C2, as stated, fails. A caller whose session resolves to viewer may neither create,
  update nor delete by the predicates, yet each of the three actions sends its write to
  the database first thing, with no session read before it, and goes on as after any
  accepted write: \<open>deleteInvoice\<close> revalidates the path and returns, \<open>createInvoice\<close>
  and \<open>updateInvoice\<close> revalidate the path and leave by the redirect.
\<close>

theorem actions_write_for_viewer:
  "snd (getCurrentUserRole viewer_request) = Inr viewer \<and>
   \<not> canDeleteInvoice viewer \<and> \<not> canCreateInvoice viewer \<and> \<not> canUpdateInvoice viewer \<and>
   deleteInvoice viewer_request ''inv-1''
     = ([Prisma (InvoicesDelete ''inv-1''), RevalidatePath ''/dashboard/invoices''],
        Inr ()) \<and>
   createInvoice viewer_request \<lparr>errors = None :: unit option, message = None\<rparr>
       (Inr ''fields'')
     = ([Prisma (InvoicesCreate ''fields''), RevalidatePath ''/dashboard/invoices'',
         Redirect ''/dashboard/invoices''], Inl (RedirectThrown ''/dashboard/invoices'')) \<and>
   updateInvoice viewer_request ''inv-1'' \<lparr>errors = None :: unit option, message = None\<rparr>
       (Inr ''fields'')
     = ([Prisma (InvoicesUpdate ''inv-1'' ''fields''), RevalidatePath ''/dashboard/invoices'',
         Redirect ''/dashboard/invoices''], Inl (RedirectThrown ''/dashboard/invoices''))"
  by (simp add: getCurrentUserRole_def auth_def viewer_request_def deleteInvoice_def
      createInvoice_def updateInvoice_def canDeleteInvoice_def canCreateInvoice_def
      canUpdateInvoice_def isRoleAtLeast_rank)

text \<open>
  C2, amended. \<open>requireRole required\<close> rejects a caller whose resolved role is
  insufficient with the response Forbidden, status 403, after one session read and
  without any database write. The invoice actions do not consult the caller's role:
  they never read the session, and what they do and return is the same whatever
  \<open>auth\<close> would give; \<open>createInvoice\<close> and \<open>updateInvoice\<close> send their write exactly
  when the fields validate, and \<open>deleteInvoice\<close> always sends its write.
\<close>

theorem requireRole_denies_without_write_actions_ignore_role:
  "(snd (getCurrentUserRole w) = Inr r \<and> \<not> isRoleAtLeast r required \<longrightarrow>
      requireRole w required
        = ([SessionRead], Inl (ResponseThrown \<lparr>body = ''Forbidden'', status = 403\<rparr>))) \<and>
   createInvoice (w\<lparr>authResult := a\<rparr>) prevState v = createInvoice w prevState v \<and>
   updateInvoice (w\<lparr>authResult := a\<rparr>) i prevState v = updateInvoice w i prevState v \<and>
   deleteInvoice (w\<lparr>authResult := a\<rparr>) i = deleteInvoice w i \<and>
   (list_ex isWrite (fst (createInvoice w prevState v)) \<longleftrightarrow> \<not> isl v) \<and>
   (list_ex isWrite (fst (updateInvoice w i prevState v)) \<longleftrightarrow> \<not> isl v) \<and>
   list_ex isWrite (fst (deleteInvoice w i)) \<and>
   SessionRead \<notin> set (fst (createInvoice w prevState v)) \<and>
   SessionRead \<notin> set (fst (updateInvoice w i prevState v)) \<and>
   SessionRead \<notin> set (fst (deleteInvoice w i))"
proof -
  have req: "snd (getCurrentUserRole w) = Inr r \<and> \<not> isRoleAtLeast r required \<longrightarrow>
      requireRole w required
        = ([SessionRead], Inl (ResponseThrown \<lparr>body = ''Forbidden'', status = 403\<rparr>))"
    by (simp add: requireRole_resolved isRoleAtLeast_rank)
  have ind: "createInvoice (w\<lparr>authResult := a\<rparr>) prevState v = createInvoice w prevState v"
    "updateInvoice (w\<lparr>authResult := a\<rparr>) i prevState v = updateInvoice w i prevState v"
    "deleteInvoice (w\<lparr>authResult := a\<rparr>) i = deleteInvoice w i"
    by (simp_all add: createInvoice_def updateInvoice_def deleteInvoice_def
        split: sum.splits)
  have wr: "list_ex isWrite (fst (createInvoice w prevState v)) \<longleftrightarrow> \<not> isl v"
    "list_ex isWrite (fst (updateInvoice w i prevState v)) \<longleftrightarrow> \<not> isl v"
    "list_ex isWrite (fst (deleteInvoice w i))"
    by (simp_all add: createInvoice_def updateInvoice_def deleteInvoice_def
        split: sum.splits)
  have nr: "SessionRead \<notin> set (fst (createInvoice w prevState v))"
    "SessionRead \<notin> set (fst (updateInvoice w i prevState v))"
    "SessionRead \<notin> set (fst (deleteInvoice w i))"
    by (simp_all add: createInvoice_def updateInvoice_def deleteInvoice_def
        split: sum.splits)
  show ?thesis
    using req ind wr nr by simp
qed

theorem requireRole_denies_without_write_actions_ignore_role_witness:
  "snd (getCurrentUserRole editor_request) = Inr editor \<and> \<not> isRoleAtLeast editor admin \<and>
   requireRole editor_request admin
     = ([SessionRead], Inl (ResponseThrown \<lparr>body = ''Forbidden'', status = 403\<rparr>))"
proof -
  have h: "snd (getCurrentUserRole editor_request) = Inr editor \<and>
           \<not> isRoleAtLeast editor admin"
    by (simp add: getCurrentUserRole_def auth_def editor_request_def isRoleAtLeast_rank)
  show ?thesis
    using h requireRole_denies_without_write_actions_ignore_role
      [of editor_request editor admin "Inr None"
        "\<lparr>errors = None :: unit option, message = None\<rparr>" "Inr ''fields''" "''inv-1''"]
    by simp
qed

end
